theory Spec2Isabelle
  imports Complex_Main
begin

section \<open>Python values and errors\<close>

text \<open>
  The module \<^verbatim>\<open>ema_workbench/em_framework/parameters.py\<close> is embedded function by
  function. Every \<^verbatim>\<open>raise\<close> and every failing \<^verbatim>\<open>assert\<close> of the source is a value
  \<open>Inl e\<close> of a sum type; a normal return is \<open>Inr v\<close>.
\<close>

datatype py_error = ValueError | TypeError | AssertionError | AttributeError | LookupError

text \<open>
  Numbers are Python \<^verbatim>\<open>int\<close>s (unbounded) or \<^verbatim>\<open>float\<close>s. Floats are idealised as
  reals: rounding, infinities and NaN are outside the model.
\<close>

datatype num = PyInt int | PyFloat real

fun num_val :: "num \<Rightarrow> real" where
  "num_val (PyInt i) = of_int i"
| "num_val (PyFloat r) = r"

text \<open>\<^verbatim>\<open>isinstance(x, numbers.Integral)\<close>: true of an \<^verbatim>\<open>int\<close>, false of every \<^verbatim>\<open>float\<close>.\<close>

fun is_Integral :: "num \<Rightarrow> bool" where
  "is_Integral (PyInt i) = True"
| "is_Integral (PyFloat r) = False"

text \<open>\<^verbatim>\<open>str(i)\<close> of a non-negative \<^verbatim>\<open>int\<close>: its decimal digits, no leading zero.\<close>

definition digit_char :: "nat \<Rightarrow> char" where
  "digit_char d = char_of (48 + d)"

fun str_nat :: "nat \<Rightarrow> string" where
  "str_nat n =
     (if n < 10 then [digit_char n] else str_nat (n div 10) @ [digit_char (n mod 10)])"

declare str_nat.simps [simp del]

section \<open>Policy, Scenario, Case\<close>

text \<open>
  \<^verbatim>\<open>Policy\<close> and \<^verbatim>\<open>Scenario\<close> are named dictionaries with an id taken from a
  counter of their class. The generator reads the \<^verbatim>\<open>name\<close> of a model structure and of
  a policy only, and passes policy and scenario objects on unchanged.
\<close>

record model_structure =
  msi_name :: string

record policy =
  policy_name :: string
  policy_id :: nat
  policy_items :: "(string \<times> num) list"

record scenario =
  scenario_name :: string
  scenario_id :: nat
  scenario_items :: "(string \<times> num) list"

text \<open>\<^verbatim>\<open>Case(name, model_name, policy, scenario, experiment_id)\<close>\<close>

record experiment_case =
  case_name :: string
  case_model_name :: string
  case_policy :: policy
  case_scenario :: scenario
  experiment_id :: nat

definition Case :: "string \<Rightarrow> string \<Rightarrow> policy \<Rightarrow> scenario \<Rightarrow> nat \<Rightarrow> experiment_case" where
  "Case name model_name pol scen eid =
     \<lparr>case_name = name, case_model_name = model_name, case_policy = pol,
      case_scenario = scen, experiment_id = eid\<rparr>"

section \<open>experiment\_generator\<close>

text \<open>
  \<^verbatim>\<open>experiment_generator\<close> contains \<^verbatim>\<open>yield\<close>, so it is a generator function: calling
  it binds the arguments and returns a generator object; no statement of the body runs
  before the first \<^verbatim>\<open>next\<close>. A generator object is therefore in one of three states:
  created (holding the arguments), suspended at the \<^verbatim>\<open>yield\<close> (holding the jobs that
  remain and the next ordinal of \<^verbatim>\<open>enumerate\<close>), or finished.
\<close>

type_synonym job = "model_structure \<times> policy \<times> scenario"

datatype generator =
  Created "scenario list" "model_structure list" "policy list" "string list option"
| Suspended "job list" nat
| Finished

datatype pull = Yielded experiment_case | StopIteration | Raised py_error

text \<open>\<^verbatim>\<open>zip(a, b, c)\<close> stops at the shortest argument, as \<open>zip\<close> does.\<close>

definition zip3 :: "'a list \<Rightarrow> 'b list \<Rightarrow> 'c list \<Rightarrow> ('a \<times> 'b \<times> 'c) list" where
  "zip3 xs ys zs = zip xs (zip ys zs)"

text \<open>
  The body of the function up to the \<^verbatim>\<open>for\<close> loop: lines 633 to 677. The inputs are
  lists, so \<^verbatim>\<open>itertools.product\<close> and the generator expressions over it enumerate a
  fixed sequence of jobs, the right-most argument of \<^verbatim>\<open>product\<close> running fastest.
  \<^verbatim>\<open>assert\<close> statements are active (the interpreter runs without \<^verbatim>\<open>-O\<close>).
\<close>

definition jobs_of ::
  "scenario list \<Rightarrow> model_structure list \<Rightarrow> policy list \<Rightarrow> string list option
    \<Rightarrow> py_error + job list" where
  "jobs_of scenarios model_structures policies zip_over_arg =
     (let zip_over = (case zip_over_arg of None \<Rightarrow> {} | Some z \<Rightarrow> set z) in
      if \<not> zip_over \<subseteq> {''scenarios'', ''policies'', ''models''} then Inl ValueError
      else if card zip_over = 1 then Inl ValueError
      else if zip_over = {''scenarios'', ''policies'', ''models''} then
        (if length model_structures \<noteq> length policies then Inl AssertionError
         else if length model_structures \<noteq> length scenarios then Inl AssertionError
         else Inr (zip3 model_structures policies scenarios))
      else if zip_over = {''scenarios'', ''policies''} then
        (if length scenarios \<noteq> length policies then Inl AssertionError
         else Inr (map (\<lambda>(m, (p, s)). (m, p, s))
                     (List.product model_structures (zip policies scenarios))))
      else if zip_over = {''scenarios'', ''models''} then
        (if length model_structures \<noteq> length scenarios then Inl AssertionError
         else Inr (map (\<lambda>(p, (m, s)). (m, p, s))
                     (List.product policies (zip model_structures scenarios))))
      else if zip_over = {''policies'', ''models''} then
        (if length model_structures \<noteq> length policies then Inl AssertionError
         else Inr (map (\<lambda>(s, (m, p)). (m, p, s))
                     (List.product scenarios (zip model_structures policies))))
      else Inr (List.product model_structures (List.product policies scenarios)))"

text \<open>
  One iteration of the loop of lines 679 to 683:
  \<^verbatim>\<open>name = '{} {} {}'.format(msi.name, policy.name, i)\<close>.
\<close>

definition make_case :: "job \<Rightarrow> nat \<Rightarrow> experiment_case" where
  "make_case jb i =
     (case jb of (msi, pol, scen) \<Rightarrow>
        Case (msi_name msi @ '' '' @ policy_name pol @ '' '' @ str_nat i)
             (msi_name msi) pol scen i)"

fun resume :: "job list \<Rightarrow> nat \<Rightarrow> pull \<times> generator" where
  "resume [] i = (StopIteration, Finished)"
| "resume (jb # jobs) i = (Yielded (make_case jb i), Suspended jobs (Suc i))"

text \<open>\<^verbatim>\<open>next(g)\<close>: the result of the pull and the generator afterwards.\<close>

fun gen_next :: "generator \<Rightarrow> pull \<times> generator" where
  "gen_next (Created scenarios model_structures policies zip_over) =
     (case jobs_of scenarios model_structures policies zip_over of
        Inl e \<Rightarrow> (Raised e, Finished)
      | Inr jobs \<Rightarrow> resume jobs 0)"
| "gen_next (Suspended jobs i) = resume jobs i"
| "gen_next Finished = (StopIteration, Finished)"

text \<open>
  The call itself: it cannot raise, whatever the arguments are. The result type is
  a sum all the same, so that "the call raises" is a statement about this function.
\<close>

definition experiment_generator ::
  "scenario list \<Rightarrow> model_structure list \<Rightarrow> policy list \<Rightarrow> string list option
    \<Rightarrow> py_error + generator" where
  "experiment_generator scenarios model_structures policies zip_over =
     Inr (Created scenarios model_structures policies zip_over)"

text \<open>
  What the consumer sees when it pulls until the generator stops: \<^verbatim>\<open>list(g)\<close>. The
  number of pulls left is bounded by the number of jobs left, which is the termination
  measure.
\<close>

fun pulls_left :: "generator \<Rightarrow> nat" where
  "pulls_left (Created scenarios model_structures policies zip_over) =
     (case jobs_of scenarios model_structures policies zip_over of
        Inl e \<Rightarrow> 1 | Inr jobs \<Rightarrow> length jobs + 2)"
| "pulls_left (Suspended jobs i) = length jobs + 1"
| "pulls_left Finished = 0"

function collect :: "generator \<Rightarrow> py_error + experiment_case list" where
  "collect g =
     (case gen_next g of
        (Yielded c, g') \<Rightarrow> (case collect g' of Inl e \<Rightarrow> Inl e | Inr cs \<Rightarrow> Inr (c # cs))
      | (StopIteration, g') \<Rightarrow> Inr []
      | (Raised e, g') \<Rightarrow> Inl e)"
  by pat_completeness auto
termination
proof (relation "measure pulls_left")
  show "wf (measure pulls_left)" by simp
next
  fix g x y x1
  assume a: "(x, y) = gen_next g" "x = Yielded x1"
  have r: "pulls_left g' < Suc (length jobs)"
    if "(Yielded x1, g') = resume jobs i" for jobs i g'
    using that by (cases jobs) auto
  from a show "(y, g) \<in> measure pulls_left"
    by (cases g) (auto split: sum.splits dest!: r)
qed

declare collect.simps [simp del]

text \<open>\<^verbatim>\<open>list(experiment_generator(...))\<close>: the call, then every pull.\<close>

definition py_list :: "py_error + generator \<Rightarrow> py_error + experiment_case list" where
  "py_list r = (case r of Inl e \<Rightarrow> Inl e | Inr g \<Rightarrow> collect g)"

text \<open>
  The ways in which the specification calls a \<^verbatim>\<open>zip_over\<close> invalid: a single
  element, a name that is no axis, or two zipped axes whose collections differ in length.
\<close>

definition axis_length ::
  "scenario list \<Rightarrow> model_structure list \<Rightarrow> policy list \<Rightarrow> string \<Rightarrow> nat" where
  "axis_length scenarios model_structures policies axis =
     (if axis = ''scenarios'' then length scenarios
      else if axis = ''policies'' then length policies
      else length model_structures)"

definition zipped_lengths_differ ::
  "scenario list \<Rightarrow> model_structure list \<Rightarrow> policy list \<Rightarrow> string list \<Rightarrow> bool" where
  "zipped_lengths_differ scenarios model_structures policies z =
     list_ex (\<lambda>a. list_ex (\<lambda>b.
        axis_length scenarios model_structures policies a \<noteq>
        axis_length scenarios model_structures policies b) z) z"

definition invalid_zip_over ::
  "scenario list \<Rightarrow> model_structure list \<Rightarrow> policy list \<Rightarrow> string list \<Rightarrow> bool" where
  "invalid_zip_over scenarios model_structures policies z \<longleftrightarrow>
     card (set z) = 1
     \<or> \<not> set z \<subseteq> {''scenarios'', ''policies'', ''models''}
     \<or> zipped_lengths_differ scenarios model_structures policies z"

section \<open>Distributions\<close>

text \<open>
  \<^verbatim>\<open>scipy.stats\<close> is not part of the repository. A frozen distribution is modelled by
  what the module reads of it: \<^verbatim>\<open>dist.name\<close> and whether \<^verbatim>\<open>dist\<close> is an \<^verbatim>\<open>rv_discrete\<close>
  (the attribute \<^verbatim>\<open>dist\<close> may be missing: the source catches \<^verbatim>\<open>AttributeError\<close>),
  \<^verbatim>\<open>args\<close>, \<^verbatim>\<open>kwds\<close> (each key once), the support \<^verbatim>\<open>a\<close>, \<^verbatim>\<open>b\<close> and the inverse
  cumulative distribution function \<^verbatim>\<open>ppf\<close>, which returns a float.
\<close>

record rv_generic =
  family_name :: string
  is_rv_discrete :: bool

record rv_frozen =
  rv_dist :: "rv_generic option"
  rv_args :: "num list"
  rv_kwds :: "(string \<times> num) list"
  rv_a :: num
  rv_b :: num
  rv_ppf :: "real \<Rightarrow> real"

text \<open>Arithmetic of Python numbers: \<^verbatim>\<open>int\<close> with \<^verbatim>\<open>int\<close> is an \<^verbatim>\<open>int\<close>, else a float.\<close>

fun num_add :: "num \<Rightarrow> num \<Rightarrow> num" where
  "num_add (PyInt a) (PyInt b) = PyInt (a + b)"
| "num_add x y = PyFloat (num_val x + num_val y)"

fun num_sub :: "num \<Rightarrow> num \<Rightarrow> num" where
  "num_sub (PyInt a) (PyInt b) = PyInt (a - b)"
| "num_sub x y = PyFloat (num_val x - num_val y)"

text \<open>\<^verbatim>\<open>x == y\<close> on numbers compares values: \<^verbatim>\<open>1 == 1.0\<close>.\<close>

definition num_eq :: "num \<Rightarrow> num \<Rightarrow> bool" where
  "num_eq x y \<longleftrightarrow> num_val x = num_val y"

text \<open>\<^verbatim>\<open>int(x)\<close> of a float truncates towards zero.\<close>

definition py_int :: "real \<Rightarrow> int" where
  "py_int r = (if 0 \<le> r then \<lfloor>r\<rfloor> else \<lceil>r\<rceil>)"

text \<open>
  The two distributions the module builds itself, by what \<^verbatim>\<open>scipy.stats\<close> documents
  and the specification says of the distribution adapter: \<^verbatim>\<open>uniform(loc, scale)\<close> is the
  continuous uniform distribution over \<open>[loc, loc + scale]\<close>; \<^verbatim>\<open>randint(low, high)\<close> is
  the discrete uniform distribution over the integers \<open>low, \<dots>, high - 1\<close>, whose inverse
  CDF at exactly 0 returns one unit below the lower bound. The attributes \<^verbatim>\<open>a\<close> and
  \<^verbatim>\<open>b\<close> are the support before \<^verbatim>\<open>loc\<close> and \<^verbatim>\<open>scale\<close> are applied.
\<close>

definition uniform :: "num \<Rightarrow> num \<Rightarrow> rv_frozen" where
  "uniform loc scale =
     \<lparr>rv_dist = Some \<lparr>family_name = ''uniform'', is_rv_discrete = False\<rparr>,
      rv_args = [loc, scale], rv_kwds = [], rv_a = PyFloat 0, rv_b = PyFloat 1,
      rv_ppf = (\<lambda>q. num_val loc + q * num_val scale)\<rparr>"

definition randint :: "num \<Rightarrow> num \<Rightarrow> rv_frozen" where
  "randint low high =
     \<lparr>rv_dist = Some \<lparr>family_name = ''randint'', is_rv_discrete = True\<rparr>,
      rv_args = [low, high], rv_kwds = [], rv_a = low, rv_b = num_sub high (PyInt 1),
      rv_ppf = (\<lambda>q. if q \<le> 0 then num_val low - 1
                     else of_int \<lceil>num_val low + q * (num_val high - num_val low)\<rceil> - 1)\<rparr>"

text \<open>
  Lines 157 to 186. \<^verbatim>\<open>5e-324\<close> is the literal of the source, taken as the real number
  it denotes.
\<close>

definition ppf_zero :: "rv_frozen \<Rightarrow> real" where
  "ppf_zero rv =
     (case rv_dist rv of
        None \<Rightarrow> 0
      | Some g \<Rightarrow> if is_rv_discrete g then 5 / 10 ^ 324 else 0)"

definition get_bounds_from_dist :: "rv_frozen \<Rightarrow> real \<times> real" where
  "get_bounds_from_dist rv =
     (let lower_bound = rv_ppf rv (ppf_zero rv);
          upper_bound = rv_ppf rv 1
      in (lower_bound, upper_bound))"

definition get_lower_bound_from_dist :: "rv_frozen \<Rightarrow> real" where
  "get_lower_bound_from_dist rv = rv_ppf rv (ppf_zero rv)"

definition get_upper_bound_from_dist :: "rv_frozen \<Rightarrow> real" where
  "get_upper_bound_from_dist rv = rv_ppf rv 1"

section \<open>Parameters\<close>

datatype pyval = NumV num | StrV string | BoolV bool

text \<open>\<^verbatim>\<open>x == y\<close> on values: a \<^verbatim>\<open>bool\<close> is the \<^verbatim>\<open>int\<close> 0 or 1, a string equals strings only.\<close>

fun pyval_eq :: "pyval \<Rightarrow> pyval \<Rightarrow> bool" where
  "pyval_eq (StrV s) (StrV t) = (s = t)"
| "pyval_eq (StrV s) y = False"
| "pyval_eq x (StrV t) = False"
| "pyval_eq (NumV a) (NumV b) = num_eq a b"
| "pyval_eq (NumV a) (BoolV c) = (num_val a = (if c then 1 else 0))"
| "pyval_eq (BoolV c) (NumV b) = (num_val b = (if c then 1 else 0))"
| "pyval_eq (BoolV c) (BoolV d) = (c = d)"

fun default_eq :: "pyval option \<Rightarrow> pyval option \<Rightarrow> bool" where
  "default_eq None None = True"
| "default_eq (Some x) (Some y) = pyval_eq x y"
| "default_eq x y = False"

text \<open>Equality of two \<^verbatim>\<open>kwds\<close> dictionaries: the same keys, with equal values.\<close>

definition dict_eq :: "(string \<times> num) list \<Rightarrow> (string \<times> num) list \<Rightarrow> bool" where
  "dict_eq d e \<longleftrightarrow>
     list_all (\<lambda>(k, v). case map_of e k of None \<Rightarrow> False | Some w \<Rightarrow> num_eq v w) d
     \<and> list_all (\<lambda>(k, w). map_of d k \<noteq> None) e"

datatype param_class =
  RealParameter_class | IntegerParameter_class | CategoricalParameter_class
| BinaryParameter_class | BooleanParameter_class

text \<open>
  The attributes \<^verbatim>\<open>Parameter.__init__\<close> sets, with the class of the object. The
  properties \<^verbatim>\<open>lower_bound\<close> and \<^verbatim>\<open>upper_bound\<close> are not stored: they are read off
  \<^verbatim>\<open>rv_gen\<close> each time.
\<close>

record parameter =
  p_class :: param_class
  p_name :: string
  p_resolution :: "num list"
  p_default :: "pyval option"
  p_variable_name :: "string list option"
  p_pff :: bool
  p_rv_gen :: rv_frozen

definition lower_bound :: "'a parameter_scheme \<Rightarrow> real" where
  "lower_bound self = get_lower_bound_from_dist (p_rv_gen self)"

definition upper_bound :: "'a parameter_scheme \<Rightarrow> real" where
  "upper_bound self = get_upper_bound_from_dist (p_rv_gen self)"

text \<open>\<^verbatim>\<open>Parameter.__init__\<close>, lines 88 to 107.\<close>

definition Parameter_init ::
  "param_class \<Rightarrow> string \<Rightarrow> num \<Rightarrow> num \<Rightarrow> num list option \<Rightarrow> pyval option
    \<Rightarrow> string list option \<Rightarrow> bool \<Rightarrow> rv_frozen \<Rightarrow> py_error + parameter" where
  "Parameter_init cls name lower upper resolution_arg dflt variable_name pff rv =
     (let resolution = (case resolution_arg of None \<Rightarrow> [] | Some r \<Rightarrow> r) in
      if list_ex (\<lambda>entry. \<not> (num_val lower \<le> num_val entry \<and> num_val entry \<le> num_val upper))
           resolution
      then Inl ValueError
      else if num_val upper \<le> num_val lower then Inl ValueError
      else Inr \<lparr>p_class = cls, p_name = name, p_resolution = resolution,
                p_default = dflt, p_variable_name = variable_name, p_pff = pff,
                p_rv_gen = rv\<rparr>)"

text \<open>\<^verbatim>\<open>RealParameter.__init__\<close>, lines 210 to 233.\<close>

definition RealParameter ::
  "string \<Rightarrow> num option \<Rightarrow> num option \<Rightarrow> num list option \<Rightarrow> pyval option
    \<Rightarrow> string list option \<Rightarrow> bool \<Rightarrow> rv_frozen option \<Rightarrow> py_error + parameter" where
  "RealParameter name lower_arg upper_arg resolution dflt variable_name pff rv_arg =
     (case rv_arg of
        None \<Rightarrow>
          (case (lower_arg, upper_arg) of
             (Some lower, Some upper) \<Rightarrow>
               Parameter_init RealParameter_class name lower upper resolution dflt
                 variable_name pff (uniform lower (num_sub upper lower))
           | _ \<Rightarrow> Inl ValueError)
      | Some rv \<Rightarrow>
          (case get_bounds_from_dist rv of (lower, upper) \<Rightarrow>
             Parameter_init RealParameter_class name (PyFloat lower) (PyFloat upper)
               resolution dflt variable_name pff rv))"

text \<open>
  \<^verbatim>\<open>RealParameter.__eq__\<close>, lines 236 to 246. The keys of \<^verbatim>\<open>self.__dict__\<close> other than
  \<^verbatim>\<open>rv_gen\<close> are the five attributes of \<^verbatim>\<open>Parameter.__init__\<close>, which every parameter
  has. The list \<^verbatim>\<open>comparison\<close> is built in full before \<^verbatim>\<open>all\<close> reads it, so a
  distribution without the attribute \<^verbatim>\<open>dist\<close> raises \<^verbatim>\<open>AttributeError\<close>.
\<close>

definition attributes_eq :: "'a parameter_scheme \<Rightarrow> 'b parameter_scheme \<Rightarrow> bool" where
  "attributes_eq self other \<longleftrightarrow>
     p_name self = p_name other
     \<and> list_all2 num_eq (p_resolution self) (p_resolution other)
     \<and> default_eq (p_default self) (p_default other)
     \<and> p_variable_name self = p_variable_name other
     \<and> p_pff self = p_pff other"

definition RealParameter_eq :: "parameter \<Rightarrow> parameter \<Rightarrow> py_error + bool" where
  "RealParameter_eq self other =
     (case (rv_dist (p_rv_gen self), rv_dist (p_rv_gen other)) of
        (Some f, Some g) \<Rightarrow>
          Inr (attributes_eq self other
               \<and> p_class self = p_class other
               \<and> list_all2 num_eq (rv_args (p_rv_gen self)) (rv_args (p_rv_gen other))
               \<and> dict_eq (rv_kwds (p_rv_gen self)) (rv_kwds (p_rv_gen other))
               \<and> num_eq (rv_a (p_rv_gen self)) (rv_a (p_rv_gen other))
               \<and> num_eq (rv_b (p_rv_gen self)) (rv_b (p_rv_gen other))
               \<and> family_name f = family_name g)
      | _ \<Rightarrow> Inl AttributeError)"

text \<open>
  \<^verbatim>\<open>IntegerParameter.__init__\<close>, lines 297 to 336, for an object of class \<open>cls\<close>
  (\<^verbatim>\<open>CategoricalParameter\<close> and \<^verbatim>\<open>BooleanParameter\<close> call it through \<^verbatim>\<open>super\<close>).
\<close>

definition IntegerParameter_finish ::
  "param_class \<Rightarrow> string \<Rightarrow> num \<Rightarrow> num \<Rightarrow> num list option \<Rightarrow> pyval option
    \<Rightarrow> string list option \<Rightarrow> bool \<Rightarrow> rv_frozen \<Rightarrow> py_error + parameter" where
  "IntegerParameter_finish cls name lower upper resolution dflt variable_name pff rv =
     (case Parameter_init cls name lower upper resolution dflt variable_name pff rv of
        Inl e \<Rightarrow> Inl e
      | Inr self \<Rightarrow>
          (let lb_int = is_Integral lower; up_int = is_Integral upper in
           if \<not> (lb_int \<or> up_int) then Inl ValueError
           else if list_ex (\<lambda>entry. \<not> is_Integral entry) (p_resolution self)
           then Inl ValueError
           else Inr self))"

definition IntegerParameter_init ::
  "param_class \<Rightarrow> string \<Rightarrow> num option \<Rightarrow> num option \<Rightarrow> num list option \<Rightarrow> pyval option
    \<Rightarrow> string list option \<Rightarrow> bool \<Rightarrow> rv_frozen option \<Rightarrow> py_error + parameter" where
  "IntegerParameter_init cls name lower_arg upper_arg resolution dflt variable_name pff
      rv_arg =
     (case rv_arg of
        None \<Rightarrow>
          (case (lower_arg, upper_arg) of
             (Some lower, Some upper) \<Rightarrow>
               IntegerParameter_finish cls name lower upper resolution dflt variable_name
                 pff (randint lower (num_add upper (PyInt 1)))
           | _ \<Rightarrow> Inl ValueError)
      | Some rv \<Rightarrow>
          (case get_bounds_from_dist rv of (lower, upper) \<Rightarrow>
             if lower \<noteq> of_int (py_int lower) then Inl TypeError
             else if upper \<noteq> of_int (py_int upper) then Inl TypeError
             else IntegerParameter_finish cls name (PyInt (py_int lower))
                    (PyInt (py_int upper)) resolution dflt variable_name pff rv))"

definition IntegerParameter ::
  "string \<Rightarrow> num option \<Rightarrow> num option \<Rightarrow> num list option \<Rightarrow> pyval option
    \<Rightarrow> string list option \<Rightarrow> bool \<Rightarrow> rv_frozen option \<Rightarrow> py_error + parameter" where
  "IntegerParameter = IntegerParameter_init IntegerParameter_class"

section \<open>Categorical parameters\<close>

text \<open>
  A raw category is a string, an \<^verbatim>\<open>int\<close> or a \<^verbatim>\<open>bool\<close>. A float as a category is
  outside the model: its \<^verbatim>\<open>str\<close> depends on its binary representation.
\<close>

datatype label = StrL string | IntL int | BoolL bool

definition str_int :: "int \<Rightarrow> string" where
  "str_int i = (if i < 0 then ''-'' @ str_nat (nat (- i)) else str_nat (nat i))"

fun py_str :: "label \<Rightarrow> string" where
  "py_str (StrL s) = s"
| "py_str (IntL i) = str_int i"
| "py_str (BoolL b) = (if b then ''True'' else ''False'')"

text \<open>\<^verbatim>\<open>Category(name, value)\<close>, a \<^verbatim>\<open>Constant\<close>.\<close>

record category =
  cat_name :: string
  cat_value :: label

definition Category :: "string \<Rightarrow> label \<Rightarrow> category" where
  "Category name v = \<lparr>cat_name = name, cat_value = v\<rparr>"

text \<open>
  An element of the list given to the constructor is a \<^verbatim>\<open>Category\<close> already, or a raw
  value: \<^verbatim>\<open>create_category\<close>, lines 53 to 57.
\<close>

datatype cat_arg = Cat category | Raw label

fun create_category :: "cat_arg \<Rightarrow> category" where
  "create_category (Cat c) = c"
| "create_category (Raw v) = Category (py_str v) v"

text \<open>
  Modelled from the spec: \<^verbatim>\<open>NamedObjectMap\<close> (\<^verbatim>\<open>em_framework/util.py\<close>) is missing. The
  specification has the categories of a parameter as "a named, ordered list" in
  construction order, changed only by "explicit category list extension", searched by
  "first match by name" and read by ordinal, where the "index must be in range". So the
  map is the list of its objects in insertion order, \<^verbatim>\<open>extend\<close> appends, iteration and
  \<^verbatim>\<open>len\<close> are the list's, and reading an ordinal out of range is a lookup error.
\<close>

type_synonym named_object_map = "category list"

definition NamedObjectMap :: named_object_map where
  "NamedObjectMap = []"

definition NamedObjectMap_extend :: "named_object_map \<Rightarrow> category list \<Rightarrow> named_object_map" where
  "NamedObjectMap_extend m vs = m @ vs"


record categorical_parameter = parameter +
  cp_categories :: named_object_map
  cp_multivalue :: bool

text \<open>The property \<^verbatim>\<open>categories\<close> and its setter, lines 367 to 373.\<close>

definition categories :: "categorical_parameter \<Rightarrow> named_object_map" where
  "categories self = cp_categories self"

definition categories_setter ::
  "categorical_parameter \<Rightarrow> category list \<Rightarrow> categorical_parameter" where
  "categories_setter self vs =
     self\<lparr>cp_categories := NamedObjectMap_extend (cp_categories self) vs\<rparr>"

text \<open>
  \<^verbatim>\<open>CategoricalParameter.__init__\<close>, lines 375 to 400, for an object of class \<open>cls\<close>
  (\<^verbatim>\<open>BinaryParameter\<close> calls it through \<^verbatim>\<open>super\<close>).
\<close>

definition CategoricalParameter_init ::
  "param_class \<Rightarrow> string \<Rightarrow> cat_arg list \<Rightarrow> pyval option \<Rightarrow> string list option \<Rightarrow> bool
    \<Rightarrow> bool \<Rightarrow> py_error + categorical_parameter" where
  "CategoricalParameter_init cls name cat_args dflt variable_name pff multivalue =
     (let lower = (0 :: int); upper = int (length cat_args) - 1 in
      if upper = 0 then Inl ValueError
      else
        (case IntegerParameter_init cls name (Some (PyInt lower)) (Some (PyInt upper)) None
                dflt variable_name pff None of
           Inl e \<Rightarrow> Inl e
         | Inr base \<Rightarrow>
             (let cats = map create_category cat_args;
                  self = \<lparr>p_class = p_class base, p_name = p_name base,
                          p_resolution = p_resolution base, p_default = p_default base,
                          p_variable_name = p_variable_name base, p_pff = p_pff base,
                          p_rv_gen = p_rv_gen base,
                          cp_categories = NamedObjectMap, cp_multivalue = multivalue\<rparr>;
                  self = categories_setter self cats;
                  self = self\<lparr>p_resolution :=
                           map (\<lambda>i. PyInt (int i)) [0..<length (categories self)]\<rparr>
              in Inr self)))"

definition CategoricalParameter ::
  "string \<Rightarrow> cat_arg list \<Rightarrow> pyval option \<Rightarrow> string list option \<Rightarrow> bool \<Rightarrow> bool
    \<Rightarrow> py_error + categorical_parameter" where
  "CategoricalParameter = CategoricalParameter_init CategoricalParameter_class"

text \<open>\<^verbatim>\<open>BinaryParameter.__init__\<close>, lines 473 to 481.\<close>

definition BinaryParameter :: "string \<Rightarrow> pyval option \<Rightarrow> py_error + categorical_parameter" where
  "BinaryParameter name dflt =
     CategoricalParameter_init BinaryParameter_class name [Raw (BoolL False), Raw (BoolL True)]
       dflt None False False"




section \<open>The table of parameters\<close>

text \<open>
  \<^verbatim>\<open>parameters_to_csv\<close>, lines 686 to 725, up to the dictionary \<^verbatim>\<open>params\<close> that becomes
  the data frame: row \<open>i\<close> holds the name of parameter \<open>i\<close> and, under the columns 0, 1,
  \<open>\<dots>\<close>, its values. Writing the frame to a file is left to \<^verbatim>\<open>pandas\<close>.
  \<^verbatim>\<open>isinstance(param, CategoricalParameter)\<close> is the constructor \<open>Categorical\<close>.
\<close>

datatype any_parameter = Plain parameter | Categorical categorical_parameter

definition csv_row :: "any_parameter \<Rightarrow> string \<times> num list" where
  "csv_row param =
     (case param of
        Categorical p \<Rightarrow> (p_name p, p_resolution p)
      | Plain p \<Rightarrow> (p_name p, [PyFloat (lower_bound p), PyFloat (upper_bound p)]))"

definition parameters_to_csv :: "any_parameter list \<Rightarrow> (string \<times> num list) list" where
  "parameters_to_csv parameters = map csv_row parameters"

section \<open>Examples\<close>

text \<open>Concrete scenarios, policies and model structures for the examples.\<close>

definition ex_S1 :: scenario where
  "ex_S1 = \<lparr>scenario_name = ''s1'', scenario_id = 1, scenario_items = [(''x'', PyInt 1)]\<rparr>"
definition ex_S2 :: scenario where
  "ex_S2 = \<lparr>scenario_name = ''s2'', scenario_id = 2, scenario_items = [(''x'', PyInt 2)]\<rparr>"
definition ex_P1 :: policy where
  "ex_P1 = \<lparr>policy_name = ''p1'', policy_id = 1, policy_items = [(''l'', PyInt 0)]\<rparr>"
definition ex_P2 :: policy where
  "ex_P2 = \<lparr>policy_name = ''p2'', policy_id = 2, policy_items = [(''l'', PyInt 5)]\<rparr>"
definition ex_M1 :: model_structure where
  "ex_M1 = \<lparr>msi_name = ''m1''\<rparr>"
definition ex_M2 :: model_structure where
  "ex_M2 = \<lparr>msi_name = ''m2''\<rparr>"

text \<open>Concrete parameters and distributions for the examples.\<close>

definition ex_abc :: "cat_arg list" where
  "ex_abc = [Raw (StrL ''a''), Raw (StrL ''b''), Raw (StrL ''c'')]"

definition ex_categorical :: categorical_parameter where
  "ex_categorical =
     \<lparr>p_class = CategoricalParameter_class, p_name = ''x'',
      p_resolution = [PyInt 0, PyInt 1, PyInt 2], p_default = None, p_variable_name = None,
      p_pff = False, p_rv_gen = randint (PyInt 0) (PyInt 3),
      cp_categories = [Category ''a'' (StrL ''a''), Category ''b'' (StrL ''b''),
                       Category ''c'' (StrL ''c'')],
      cp_multivalue = False\<rparr>"

definition ex_uvw :: "cat_arg list" where
  "ex_uvw = [Raw (StrL ''u''), Raw (StrL ''v''), Raw (StrL ''w'')]"

definition ex_categorical_uvw :: categorical_parameter where
  "ex_categorical_uvw =
     \<lparr>p_class = CategoricalParameter_class, p_name = ''x'',
      p_resolution = [PyInt 0, PyInt 1, PyInt 2], p_default = None, p_variable_name = None,
      p_pff = False, p_rv_gen = randint (PyInt 0) (PyInt 3),
      cp_categories = [Category ''u'' (StrL ''u''), Category ''v'' (StrL ''v''),
                       Category ''w'' (StrL ''w'')],
      cp_multivalue = False\<rparr>"

definition ex_real :: parameter where
  "ex_real =
     \<lparr>p_class = RealParameter_class, p_name = ''x'', p_resolution = [], p_default = None,
      p_variable_name = None, p_pff = False, p_rv_gen = uniform (PyInt 0) (PyInt 1)\<rparr>"

definition ex_triang :: rv_frozen where
  "ex_triang =
     \<lparr>rv_dist = Some \<lparr>family_name = ''triang'', is_rv_discrete = False\<rparr>,
      rv_args = [PyInt 1], rv_kwds = [], rv_a = PyFloat 0, rv_b = PyFloat 1,
      rv_ppf = sqrt\<rparr>"

definition ex_real_triang :: parameter where
  "ex_real_triang =
     \<lparr>p_class = RealParameter_class, p_name = ''x'', p_resolution = [], p_default = None,
      p_variable_name = None, p_pff = False, p_rv_gen = ex_triang\<rparr>"


section \<open>The sequence a generator produces\<close>

lemma upt_0_Suc_conv: "[0..<Suc n] = 0 # map Suc [0..<n]"
  by (simp only: upt_conv_Cons [of 0 "Suc n"] map_Suc_upt)

lemma collect_Suspended:
  "collect (Suspended js k) = Inr (map (\<lambda>i. make_case (js ! i) (k + i)) [0..<length js])"
proof (induction js arbitrary: k)
  case Nil
  show ?case by (subst collect.simps) simp
next
  case (Cons j js)
  have "collect (Suspended (j # js) k) =
          Inr (make_case j k # map (\<lambda>i. make_case (js ! i) (Suc k + i)) [0..<length js])"
    by (subst collect.simps) (simp add: Cons.IH)
  also have "\<dots> = Inr (map (\<lambda>i. make_case ((j # js) ! i) (k + i)) [0..<length (j # js)])"
    by (simp only: length_Cons upt_0_Suc_conv) (simp add: comp_def)
  finally show ?case .
qed

lemma collect_Created:
  "collect (Created ss ms ps z) =
     (case jobs_of ss ms ps z of
        Inl e \<Rightarrow> Inl e
      | Inr js \<Rightarrow> Inr (map (\<lambda>i. make_case (js ! i) i) [0..<length js]))"
proof (cases "jobs_of ss ms ps z")
  case (Inl e)
  then show ?thesis by (subst collect.simps) simp
next
  case (Inr js)
  show ?thesis
  proof (cases js)
    case Nil
    with Inr show ?thesis by (subst collect.simps) simp
  next
    case (Cons j js')
    have "[0..<length js] = 0 # map Suc [0..<length js']"
      using Cons upt_0_Suc_conv by simp
    with Inr Cons show ?thesis
      by (subst collect.simps) (simp add: collect_Suspended comp_def)
  qed
qed

lemma jobs_of_None:
  "jobs_of ss ms ps None = Inr (List.product ms (List.product ps ss))"
  by (simp add: jobs_of_def)

lemma product3_nth:
  assumes "i < length ms * length ps * length ss"
  shows "List.product ms (List.product ps ss) ! i =
           (ms ! (i div (length ps * length ss)),
            ps ! (i div length ss mod length ps),
            ss ! (i mod length ss))"
proof -
  have a: "i < length ms * length (List.product ps ss)"
    using assms by (simp add: mult.assoc)
  have b: "i mod (length ps * length ss) < length ps * length ss"
    using assms by (cases "length ps * length ss = 0") auto
  have e: "i mod (length ss * length ps) =
             length ss * (i div length ss mod length ps) + i mod length ss"
    by (rule mod_mult2_eq)
  have c: "i mod (length ps * length ss) div length ss = i div length ss mod length ps"
    by (cases "length ss = 0") (simp_all add: mult.commute [of "length ps"] e)
  have d: "i mod (length ps * length ss) mod length ss = i mod length ss"
    by (simp add: mult.commute [of "length ps"] e)
  show ?thesis
    using product_nth [OF a] product_nth [OF b] c d by simp
qed

subsection \<open>Decimal numerals\<close>

lemma digit_char_code: "a < 10 \<Longrightarrow> (of_char (digit_char a) :: nat) = 48 + a"
  by (simp add: digit_char_def)

lemma digit_char_inj:
  assumes "a < 10" and "b < 10" and "digit_char a = digit_char b"
  shows "a = b"
proof -
  have "(of_char (digit_char a) :: nat) = of_char (digit_char b)"
    by (simp only: assms(3))
  then have "48 + a = 48 + b"
    by (simp only: digit_char_code [OF assms(1)] digit_char_code [OF assms(2)])
  then show ?thesis by simp
qed

lemma digit_char_not_space: "d < 10 \<Longrightarrow> digit_char d \<noteq> CHR '' ''"
proof
  assume "d < 10" and "digit_char d = CHR '' ''"
  then have "(of_char (CHR '' '') :: nat) = 48 + d"
    using digit_char_code [of d] by simp
  then show False by simp
qed

lemma str_nat_not_Nil: "str_nat n \<noteq> []"
  by (subst str_nat.simps) simp

lemma str_nat_no_space: "CHR '' '' \<notin> set (str_nat n)"
proof (induction n rule: str_nat.induct)
  case (1 n)
  show ?case
  proof (cases "n < 10")
    case True
    then show ?thesis
      using digit_char_not_space [of n] by (subst str_nat.simps) auto
  next
    case False
    with 1 show ?thesis
      using digit_char_not_space [of "n mod 10"] by (subst str_nat.simps) auto
  qed
qed

lemma str_nat_small: "n < 10 \<Longrightarrow> str_nat n = [digit_char n]"
  by (subst str_nat.simps) simp

lemma str_nat_large: "\<not> n < 10 \<Longrightarrow> str_nat n = str_nat (n div 10) @ [digit_char (n mod 10)]"
  by (subst str_nat.simps) simp

lemma str_nat_inj: "str_nat a = str_nat b \<Longrightarrow> a = b"
proof (induction a arbitrary: b rule: str_nat.induct)
  case (1 n)
  show ?case
  proof (cases "n < 10")
    case True
    show ?thesis
    proof (cases "b < 10")
      case b: True
      with True "1.prems" show ?thesis
        by (simp add: str_nat_small digit_char_inj)
    next
      case b: False
      with True "1.prems" show ?thesis
        using str_nat_not_Nil [of "b div 10"] by (auto simp add: str_nat_small str_nat_large)
    qed
  next
    case False
    show ?thesis
    proof (cases "b < 10")
      case b: True
      with False "1.prems" show ?thesis
        using str_nat_not_Nil [of "n div 10"] by (auto simp add: str_nat_small str_nat_large)
    next
      case b: False
      with False "1.prems" have e: "str_nat (n div 10) = str_nat (b div 10)"
        and d: "digit_char (n mod 10) = digit_char (b mod 10)"
        by (simp_all add: str_nat_large)
      from "1.IH" [OF False e] have "n div 10 = b div 10" .
      moreover from d have "n mod 10 = b mod 10"
        by (intro digit_char_inj) simp_all
      ultimately show ?thesis
        by (metis div_mult_mod_eq)
    qed
  qed
qed

lemma suffix_after_space:
  assumes "x @ '' '' @ d = y @ '' '' @ e"
    and "CHR '' '' \<notin> set d" and "CHR '' '' \<notin> set e"
  shows "d = e"
proof -
  have r: "takeWhile (\<lambda>c. c \<noteq> CHR '' '') (rev (u @ '' '' @ v)) = rev v"
    if "CHR '' '' \<notin> set v" for u v :: string
  proof -
    have "\<And>c. c \<in> set (rev v) \<Longrightarrow> c \<noteq> CHR '' ''"
      using that by auto
    then have "takeWhile (\<lambda>c. c \<noteq> CHR '' '') (rev v @ CHR '' '' # rev u) =
                 rev v @ takeWhile (\<lambda>c. c \<noteq> CHR '' '') (CHR '' '' # rev u)"
      by (rule takeWhile_append2)
    then show ?thesis by simp
  qed
  from assms(1) have "takeWhile (\<lambda>c. c \<noteq> CHR '' '') (rev (x @ '' '' @ d)) =
      takeWhile (\<lambda>c. c \<noteq> CHR '' '') (rev (y @ '' '' @ e))" by simp
  with r [OF assms(2)] r [OF assms(3)] show ?thesis by simp
qed

subsection \<open>The cross product\<close>

lemma str_nat_examples:
  "str_nat 0 = ''0''" "str_nat 1 = ''1''" "str_nat 2 = ''2''" "str_nat 3 = ''3''"
  "str_nat (Suc 0) = ''1''" "str_nat (Suc (Suc 0)) = ''2''"
  "str_nat (Suc (Suc (Suc 0))) = ''3''"
  by code_simp+

lemma map_upt_cong: "(\<And>i. i < n \<Longrightarrow> f i = g i) \<Longrightarrow> map f [0..<n] = map g [0..<n]"
  by simp

lemma py_list_experiment_generator:
  "py_list (experiment_generator ss ms ps z) =
     (case jobs_of ss ms ps z of
        Inl e \<Rightarrow> Inl e
      | Inr js \<Rightarrow> Inr (map (\<lambda>i. make_case (js ! i) i) [0..<length js]))"
  by (simp add: py_list_def experiment_generator_def collect_Created)

text \<open>
  Claim C1. Called with \<^verbatim>\<open>zip_over=None\<close>, the generator yields
  \<open>length model_structures * length policies * length scenarios\<close> cases: the full cross
  product, model structures outermost, then policies, scenarios innermost, and the
  \<open>i\<close>-th case (from 0) has \<open>experiment_id = i\<close>. With scenarios \<open>[S1, S2]\<close>, model
  structures \<open>[M1, M2]\<close> and policies \<open>[P1]\<close> these are the four cases
  \<open>(M1, P1, S1)\<close>, \<open>(M1, P1, S2)\<close>, \<open>(M2, P1, S1)\<close>, \<open>(M2, P1, S2)\<close> with ids 0 to 3.
\<close>

theorem experiment_generator_cross_product:
  "py_list (experiment_generator scenarios model_structures policies None) =
     Inr (map (\<lambda>i.
            \<lparr>case_name =
               msi_name (model_structures ! (i div (length policies * length scenarios))) @ '' '' @
               policy_name (policies ! (i div length scenarios mod length policies)) @ '' '' @
               str_nat i,
             case_model_name =
               msi_name (model_structures ! (i div (length policies * length scenarios))),
             case_policy = policies ! (i div length scenarios mod length policies),
             case_scenario = scenarios ! (i mod length scenarios),
             experiment_id = i\<rparr>)
          [0..<length model_structures * length policies * length scenarios])
   \<and> py_list (experiment_generator [S1, S2] [M1, M2] [P1] None) =
     Inr [\<lparr>case_name = msi_name M1 @ '' '' @ policy_name P1 @ '' '' @ ''0'',
           case_model_name = msi_name M1, case_policy = P1, case_scenario = S1,
           experiment_id = 0\<rparr>,
          \<lparr>case_name = msi_name M1 @ '' '' @ policy_name P1 @ '' '' @ ''1'',
           case_model_name = msi_name M1, case_policy = P1, case_scenario = S2,
           experiment_id = 1\<rparr>,
          \<lparr>case_name = msi_name M2 @ '' '' @ policy_name P1 @ '' '' @ ''2'',
           case_model_name = msi_name M2, case_policy = P1, case_scenario = S1,
           experiment_id = 2\<rparr>,
          \<lparr>case_name = msi_name M2 @ '' '' @ policy_name P1 @ '' '' @ ''3'',
           case_model_name = msi_name M2, case_policy = P1, case_scenario = S2,
           experiment_id = 3\<rparr>]"
proof
  have len: "length (List.product model_structures (List.product policies scenarios)) =
               length model_structures * length policies * length scenarios"
    by (simp add: mult.assoc)
  show "py_list (experiment_generator scenarios model_structures policies None) =
     Inr (map (\<lambda>i.
            \<lparr>case_name =
               msi_name (model_structures ! (i div (length policies * length scenarios))) @ '' '' @
               policy_name (policies ! (i div length scenarios mod length policies)) @ '' '' @
               str_nat i,
             case_model_name =
               msi_name (model_structures ! (i div (length policies * length scenarios))),
             case_policy = policies ! (i div length scenarios mod length policies),
             case_scenario = scenarios ! (i mod length scenarios),
             experiment_id = i\<rparr>)
          [0..<length model_structures * length policies * length scenarios])"
    unfolding py_list_experiment_generator jobs_of_None sum.case len
    by (rule arg_cong [where f = Inr], rule map_upt_cong)
       (simp add: product3_nth make_case_def Case_def)
next
  have u: "[0..<4] = [0, 1, 2, 3]"
    by (simp add: upt_rec)
  show "py_list (experiment_generator [S1, S2] [M1, M2] [P1] None) =
     Inr [\<lparr>case_name = msi_name M1 @ '' '' @ policy_name P1 @ '' '' @ ''0'',
           case_model_name = msi_name M1, case_policy = P1, case_scenario = S1,
           experiment_id = 0\<rparr>,
          \<lparr>case_name = msi_name M1 @ '' '' @ policy_name P1 @ '' '' @ ''1'',
           case_model_name = msi_name M1, case_policy = P1, case_scenario = S2,
           experiment_id = 1\<rparr>,
          \<lparr>case_name = msi_name M2 @ '' '' @ policy_name P1 @ '' '' @ ''2'',
           case_model_name = msi_name M2, case_policy = P1, case_scenario = S1,
           experiment_id = 2\<rparr>,
          \<lparr>case_name = msi_name M2 @ '' '' @ policy_name P1 @ '' '' @ ''3'',
           case_model_name = msi_name M2, case_policy = P1, case_scenario = S2,
           experiment_id = 3\<rparr>]"
    unfolding py_list_experiment_generator jobs_of_None sum.case
    by (simp add: u make_case_def Case_def str_nat_examples)
qed

subsection \<open>The job list for each \<^verbatim>\<open>zip_over\<close>\<close>

lemma set_neq_by_member: "x \<in> B \<Longrightarrow> x \<notin> A \<Longrightarrow> A \<noteq> B"
  by blast

lemma subsets_of_three:
  assumes "Z \<subseteq> {a, b, c}"
  shows "Z = {} \<or> Z = {a} \<or> Z = {b} \<or> Z = {c} \<or> Z = {a, b} \<or> Z = {a, c} \<or> Z = {b, c}
         \<or> Z = {a, b, c}"
  using assms by (cases "a \<in> Z"; cases "b \<in> Z"; cases "c \<in> Z") blast+

lemma axis_names_distinct:
  "''scenarios'' \<noteq> ''policies''" "''scenarios'' \<noteq> ''models''" "''policies'' \<noteq> ''models''"
  by simp_all

lemma axis_sets_distinct:
  "{''scenarios'', ''policies''} \<noteq> {''scenarios'', ''policies'', ''models''}"
  "{''scenarios'', ''models''} \<noteq> {''scenarios'', ''policies'', ''models''}"
  "{''policies'', ''models''} \<noteq> {''scenarios'', ''policies'', ''models''}"
  "{''scenarios'', ''models''} \<noteq> {''scenarios'', ''policies''}"
  "{''policies'', ''models''} \<noteq> {''scenarios'', ''policies''}"
  "{''policies'', ''models''} \<noteq> {''scenarios'', ''models''}"
proof -
  show "{''scenarios'', ''policies''} \<noteq> {''scenarios'', ''policies'', ''models''}"
    by (rule set_neq_by_member [of "''models''"]) simp_all
  show "{''scenarios'', ''models''} \<noteq> {''scenarios'', ''policies'', ''models''}"
    by (rule set_neq_by_member [of "''policies''"]) simp_all
  show "{''policies'', ''models''} \<noteq> {''scenarios'', ''policies'', ''models''}"
    by (rule set_neq_by_member [of "''scenarios''"]) simp_all
  show "{''scenarios'', ''models''} \<noteq> {''scenarios'', ''policies''}"
    by (rule set_neq_by_member [of "''policies''"]) simp_all
  show "{''policies'', ''models''} \<noteq> {''scenarios'', ''policies''}"
    by (rule set_neq_by_member [of "''scenarios''"]) simp_all
  show "{''policies'', ''models''} \<noteq> {''scenarios'', ''models''}"
    by (rule set_neq_by_member [of "''scenarios''"]) simp_all
qed

lemma axis_sets_card:
  "card {''scenarios'', ''policies'', ''models''} \<noteq> 1"
  "card {''scenarios'', ''policies''} \<noteq> 1"
  "card {''scenarios'', ''models''} \<noteq> 1"
  "card {''policies'', ''models''} \<noteq> 1"
  by simp_all

lemma axis_sets_subset:
  "{''scenarios'', ''policies'', ''models''} \<subseteq> {''scenarios'', ''policies'', ''models''}"
  "{''scenarios'', ''policies''} \<subseteq> {''scenarios'', ''policies'', ''models''}"
  "{''scenarios'', ''models''} \<subseteq> {''scenarios'', ''policies'', ''models''}"
  "{''policies'', ''models''} \<subseteq> {''scenarios'', ''policies'', ''models''}"
  by simp_all

lemma jobs_of_three:
  assumes "set z = {''scenarios'', ''policies'', ''models''}"
  shows "jobs_of scenarios model_structures policies (Some z) =
     (if length model_structures \<noteq> length policies then Inl AssertionError
      else if length model_structures \<noteq> length scenarios then Inl AssertionError
      else Inr (zip3 model_structures policies scenarios))"
  unfolding jobs_of_def option.case Let_def assms
  by (simp only: axis_sets_subset axis_sets_card if_True if_False simp_thms)

lemma jobs_of_scenarios_policies:
  assumes "set z = {''scenarios'', ''policies''}"
  shows "jobs_of scenarios model_structures policies (Some z) =
     (if length scenarios \<noteq> length policies then Inl AssertionError
      else Inr (map (\<lambda>(m, (p, s)). (m, p, s))
                  (List.product model_structures (zip policies scenarios))))"
  unfolding jobs_of_def option.case Let_def assms
  by (simp only: axis_sets_subset axis_sets_card axis_sets_distinct if_True if_False simp_thms)

lemma jobs_of_scenarios_models:
  assumes "set z = {''scenarios'', ''models''}"
  shows "jobs_of scenarios model_structures policies (Some z) =
     (if length model_structures \<noteq> length scenarios then Inl AssertionError
      else Inr (map (\<lambda>(p, (m, s)). (m, p, s))
                  (List.product policies (zip model_structures scenarios))))"
  unfolding jobs_of_def option.case Let_def assms
  by (simp only: axis_sets_subset axis_sets_card axis_sets_distinct if_True if_False simp_thms)

lemma jobs_of_policies_models:
  assumes "set z = {''policies'', ''models''}"
  shows "jobs_of scenarios model_structures policies (Some z) =
     (if length model_structures \<noteq> length policies then Inl AssertionError
      else Inr (map (\<lambda>(s, (m, p)). (m, p, s))
                  (List.product scenarios (zip model_structures policies))))"
  unfolding jobs_of_def option.case Let_def assms
  by (simp only: axis_sets_subset axis_sets_card axis_sets_distinct if_True if_False simp_thms)

lemma jobs_of_not_subset:
  assumes "\<not> set z \<subseteq> {''scenarios'', ''policies'', ''models''}"
  shows "jobs_of scenarios model_structures policies (Some z) = Inl ValueError"
  unfolding jobs_of_def option.case Let_def
  by (simp only: assms if_True if_False simp_thms)

lemma jobs_of_single:
  assumes "card (set z) = 1"
  shows "jobs_of scenarios model_structures policies (Some z) = Inl ValueError"
  unfolding jobs_of_def option.case Let_def
  by (simp only: assms if_True if_False simp_thms if_cancel)

lemma axis_length_simps:
  "axis_length ss ms ps ''scenarios'' = length ss"
  "axis_length ss ms ps ''policies'' = length ps"
  "axis_length ss ms ps ''models'' = length ms"
  by (simp_all add: axis_length_def)

lemma jobs_of_lengths_differ:
  assumes sub: "set z \<subseteq> {''scenarios'', ''policies'', ''models''}"
    and card: "card (set z) \<noteq> 1"
    and diff: "zipped_lengths_differ ss ms ps z"
  shows "jobs_of ss ms ps (Some z) = Inl AssertionError"
proof -
  from diff obtain a b where ab: "a \<in> set z" "b \<in> set z"
    and ne: "axis_length ss ms ps a \<noteq> axis_length ss ms ps b"
    unfolding zipped_lengths_differ_def list_ex_iff by blast
  from subsets_of_three [OF sub] show ?thesis
  proof (elim disjE)
    assume "set z = {}"
    with ab show ?thesis by simp
  next
    assume "set z = {''scenarios''}"
    with card show ?thesis by simp
  next
    assume "set z = {''policies''}"
    with card show ?thesis by simp
  next
    assume "set z = {''models''}"
    with card show ?thesis by simp
  next
    assume 5: "set z = {''scenarios'', ''policies''}"
    from ab ne have "length ss \<noteq> length ps"
      unfolding 5 by (auto simp: axis_length_simps)
    then show ?thesis
      by (simp add: jobs_of_scenarios_policies [OF 5])
  next
    assume 6: "set z = {''scenarios'', ''models''}"
    from ab ne have "length ms \<noteq> length ss"
      unfolding 6 by (auto simp: axis_length_simps)
    then show ?thesis
      by (simp add: jobs_of_scenarios_models [OF 6])
  next
    assume 7: "set z = {''policies'', ''models''}"
    from ab ne have "length ms \<noteq> length ps"
      unfolding 7 by (auto simp: axis_length_simps)
    then show ?thesis
      by (simp add: jobs_of_policies_models [OF 7])
  next
    assume 8: "set z = {''scenarios'', ''policies'', ''models''}"
    from ab ne have "length ms \<noteq> length ps \<or> length ms \<noteq> length ss"
      unfolding 8 by (auto simp: axis_length_simps)
    then show ?thesis
      by (auto simp add: jobs_of_three [OF 8])
  qed
qed

subsection \<open>Zipped scenarios and policies\<close>

lemma jobs_of_zip_scenarios_policies:
  assumes "set z = {''scenarios'', ''policies''}" and "length scenarios = length policies"
  shows "jobs_of scenarios model_structures policies (Some z) =
           Inr (map (\<lambda>(m, (p, s)). (m, p, s))
                  (List.product model_structures (zip policies scenarios)))"
  by (simp only: jobs_of_scenarios_policies [OF assms(1)] assms(2) simp_thms if_False)

text \<open>
  Claim C8. With \<^verbatim>\<open>zip_over={'scenarios', 'policies'}\<close> and as many scenarios as
  policies, policy \<open>k\<close> is paired with scenario \<open>k\<close> and the pairs are crossed with the
  model structures, model structures outermost. One model structure and two scenarios
  and policies give two cases, the \<open>i\<close>-th pairing scenario \<open>i\<close> with policy \<open>i\<close>.
\<close>

theorem experiment_generator_zip_scenarios_policies:
  assumes "set zip_over = {''scenarios'', ''policies''}"
    and "length scenarios = length policies"
  shows "py_list (experiment_generator scenarios model_structures policies (Some zip_over)) =
     Inr (map (\<lambda>i.
            \<lparr>case_name =
               msi_name (model_structures ! (i div length policies)) @ '' '' @
               policy_name (policies ! (i mod length policies)) @ '' '' @ str_nat i,
             case_model_name = msi_name (model_structures ! (i div length policies)),
             case_policy = policies ! (i mod length policies),
             case_scenario = scenarios ! (i mod length policies),
             experiment_id = i\<rparr>)
          [0..<length model_structures * length policies])"
proof -
  have len: "length (map (\<lambda>(m, (p, s)). (m, p, s))
               (List.product model_structures (zip policies scenarios))) =
             length model_structures * length policies"
    using assms(2) by simp
  have nth: "List.product model_structures (zip policies scenarios) ! i =
               (model_structures ! (i div length policies),
                policies ! (i mod length policies),
                scenarios ! (i mod length policies))"
    if "i < length model_structures * length policies" for i
  proof -
    have a: "i < length model_structures * length (zip policies scenarios)"
      using that assms(2) by simp
    have b: "i mod length policies < length policies"
      using that by (cases "length policies = 0") auto
    show ?thesis
      using product_nth [OF a] b assms(2) by simp
  qed
  show ?thesis
    unfolding py_list_experiment_generator
      jobs_of_zip_scenarios_policies [OF assms] sum.case len
    by (rule arg_cong [where f = Inr], rule map_upt_cong)
       (simp add: nth make_case_def Case_def)
qed

theorem experiment_generator_zip_scenarios_policies_witness:
  "set [''scenarios'', ''policies''] = {''scenarios'', ''policies''}
   \<and> length [ex_S1, ex_S2] = length [ex_P1, ex_P2]
   \<and> py_list (experiment_generator [ex_S1, ex_S2] [ex_M1] [ex_P1, ex_P2]
        (Some [''scenarios'', ''policies''])) =
     Inr [\<lparr>case_name = ''m1 p1 0'', case_model_name = ''m1'',
           case_policy = ex_P1, case_scenario = ex_S1, experiment_id = 0\<rparr>,
          \<lparr>case_name = ''m1 p2 1'', case_model_name = ''m1'',
           case_policy = ex_P2, case_scenario = ex_S2, experiment_id = 1\<rparr>]"
proof -
  have u: "[0..<2] = [0, 1]"
    by (simp add: upt_rec)
  have s: "set [''scenarios'', ''policies''] = {''scenarios'', ''policies''}"
    by simp
  have l: "length [ex_S1, ex_S2] = length [ex_P1, ex_P2]"
    by simp
  have n: "msi_name ex_M1 = ''m1''" "policy_name ex_P1 = ''p1''" "policy_name ex_P2 = ''p2''"
    by (simp_all add: ex_M1_def ex_P1_def ex_P2_def)
  have m: "length [ex_M1] * length [ex_P1, ex_P2] = 2"
    by simp
  have e: "map f [0..<2] = [f 0, f 1]" for f :: "nat \<Rightarrow> experiment_case"
    by (simp only: u list.map)
  have "py_list (experiment_generator [ex_S1, ex_S2] [ex_M1] [ex_P1, ex_P2]
        (Some [''scenarios'', ''policies''])) =
     Inr [\<lparr>case_name = ''m1 p1 0'', case_model_name = ''m1'',
           case_policy = ex_P1, case_scenario = ex_S1, experiment_id = 0\<rparr>,
          \<lparr>case_name = ''m1 p2 1'', case_model_name = ''m1'',
           case_policy = ex_P2, case_scenario = ex_S2, experiment_id = 1\<rparr>]"
    unfolding experiment_generator_zip_scenarios_policies [OF s l, of "[ex_M1]"] m e
    by (simp add: str_nat_examples n)
  with s l show ?thesis
    by (intro conjI)
qed

subsection \<open>Case names\<close>

lemma jobs_of_members:
  assumes "jobs_of ss ms ps z = Inr js"
  shows "set js \<subseteq> set ms \<times> set ps \<times> set ss"
proof -
  define Z where "Z = (case z of None \<Rightarrow> {} | Some z \<Rightarrow> set z)"
  define A where "A = {''scenarios'', ''policies'', ''models''}"
  define B where "B = {''scenarios'', ''policies''}"
  define C where "C = {''scenarios'', ''models''}"
  define D where "D = {''policies'', ''models''}"
  have z3: "set (zip3 ms ps ss) \<subseteq> set ms \<times> set ps \<times> set ss"
    by (auto simp: zip3_def dest: set_zip_leftD set_zip_rightD)
  have zb: "set (map (\<lambda>(m, (p, s)). (m, p, s)) (List.product ms (zip ps ss)))
              \<subseteq> set ms \<times> set ps \<times> set ss"
    by (auto dest: set_zip_leftD set_zip_rightD)
  have zc: "set (map (\<lambda>(p, (m, s)). (m, p, s)) (List.product ps (zip ms ss)))
              \<subseteq> set ms \<times> set ps \<times> set ss"
    by (auto dest: set_zip_leftD set_zip_rightD)
  have zd: "set (map (\<lambda>(s, (m, p)). (m, p, s)) (List.product ss (zip ms ps)))
              \<subseteq> set ms \<times> set ps \<times> set ss"
    by (auto dest: set_zip_leftD set_zip_rightD)
  have ze: "set (List.product ms (List.product ps ss)) \<subseteq> set ms \<times> set ps \<times> set ss"
    by auto
  from assms have
    "(if \<not> Z \<subseteq> A then Inl ValueError
      else if card Z = 1 then Inl ValueError
      else if Z = A then
        (if length ms \<noteq> length ps then Inl AssertionError
         else if length ms \<noteq> length ss then Inl AssertionError
         else Inr (zip3 ms ps ss))
      else if Z = B then
        (if length ss \<noteq> length ps then Inl AssertionError
         else Inr (map (\<lambda>(m, (p, s)). (m, p, s)) (List.product ms (zip ps ss))))
      else if Z = C then
        (if length ms \<noteq> length ss then Inl AssertionError
         else Inr (map (\<lambda>(p, (m, s)). (m, p, s)) (List.product ps (zip ms ss))))
      else if Z = D then
        (if length ms \<noteq> length ps then Inl AssertionError
         else Inr (map (\<lambda>(s, (m, p)). (m, p, s)) (List.product ss (zip ms ps))))
      else Inr (List.product ms (List.product ps ss))) = Inr js"
    unfolding jobs_of_def Let_def Z_def A_def B_def C_def D_def .
  then consider "js = zip3 ms ps ss"
    | "js = map (\<lambda>(m, (p, s)). (m, p, s)) (List.product ms (zip ps ss))"
    | "js = map (\<lambda>(p, (m, s)). (m, p, s)) (List.product ps (zip ms ss))"
    | "js = map (\<lambda>(s, (m, p)). (m, p, s)) (List.product ss (zip ms ps))"
    | "js = List.product ms (List.product ps ss)"
    by (auto split: if_splits)
  then show ?thesis
    using z3 zb zc zd ze by cases simp_all
qed

lemma case_name_make_case:
  "case_name (make_case jb i) =
     (case_model_name (make_case jb i) @ '' '' @ policy_name (case_policy (make_case jb i)))
       @ '' '' @ str_nat i"
  by (cases jb) (simp add: make_case_def Case_def)

lemma case_names_inj:
  assumes "case_name (make_case jb i) = case_name (make_case jb' i')"
  shows "i = i'"
proof -
  from assms have "str_nat i = str_nat i'"
    unfolding case_name_make_case [of jb i] case_name_make_case [of jb' i']
    by (rule suffix_after_space) (rule str_nat_no_space)+
  then show ?thesis by (rule str_nat_inj)
qed

text \<open>
  Claim C6. Whatever the inputs and \<^verbatim>\<open>zip_over\<close> are, when the generator runs to its end
  the case at position \<open>i\<close> is named after its model structure, its policy and \<open>i\<close>, has
  \<open>experiment_id = i\<close>, and no two cases of the run share a name, also when model
  structures, policies or scenarios repeat.
\<close>

theorem experiment_generator_case_names:
  assumes "py_list (experiment_generator scenarios model_structures policies zip_over) =
             Inr cases"
  shows "distinct (map case_name cases)
    \<and> (\<forall>i<length cases.
          case_name (cases ! i) =
            case_model_name (cases ! i) @ '' '' @ policy_name (case_policy (cases ! i))
              @ '' '' @ str_nat i
        \<and> experiment_id (cases ! i) = i
        \<and> case_model_name (cases ! i) \<in> msi_name ` set model_structures
        \<and> case_policy (cases ! i) \<in> set policies)"
proof -
  from assms obtain js where
    js: "jobs_of scenarios model_structures policies zip_over = Inr js"
    and cases: "cases = map (\<lambda>i. make_case (js ! i) i) [0..<length js]"
    unfolding py_list_experiment_generator by (auto split: sum.splits)
  have "inj_on (\<lambda>i. case_name (make_case (js ! i) i)) (set [0..<length js])"
    by (rule inj_onI) (rule case_names_inj)
  then have d: "distinct (map case_name cases)"
    unfolding cases map_map comp_def by (simp add: distinct_map)
  have "case_name (cases ! i) =
            case_model_name (cases ! i) @ '' '' @ policy_name (case_policy (cases ! i))
              @ '' '' @ str_nat i
        \<and> experiment_id (cases ! i) = i
        \<and> case_model_name (cases ! i) \<in> msi_name ` set model_structures
        \<and> case_policy (cases ! i) \<in> set policies"
    if "i < length cases" for i
  proof -
    from that have i: "i < length js"
      by (simp add: cases)
    then have c: "cases ! i = make_case (js ! i) i"
      by (simp add: cases)
    from i jobs_of_members [OF js] have
      "js ! i \<in> set model_structures \<times> set policies \<times> set scenarios"
      using nth_mem by blast
    then show ?thesis
      unfolding c by (cases "js ! i") (simp add: make_case_def Case_def)
  qed
  with d show ?thesis by blast
qed

theorem experiment_generator_case_names_witness:
  "py_list (experiment_generator [ex_S1, ex_S1] [ex_M1, ex_M1] [ex_P1] None) =
     Inr [\<lparr>case_name = ''m1 p1 0'', case_model_name = ''m1'',
           case_policy = ex_P1, case_scenario = ex_S1, experiment_id = 0\<rparr>,
          \<lparr>case_name = ''m1 p1 1'', case_model_name = ''m1'',
           case_policy = ex_P1, case_scenario = ex_S1, experiment_id = 1\<rparr>,
          \<lparr>case_name = ''m1 p1 2'', case_model_name = ''m1'',
           case_policy = ex_P1, case_scenario = ex_S1, experiment_id = 2\<rparr>,
          \<lparr>case_name = ''m1 p1 3'', case_model_name = ''m1'',
           case_policy = ex_P1, case_scenario = ex_S1, experiment_id = 3\<rparr>]
   \<and> distinct [''m1 p1 0'', ''m1 p1 1'', ''m1 p1 2'', ''m1 p1 3'']"
proof -
  have u: "[0..<4] = [0, 1, 2, 3]"
    by (simp add: upt_rec)
  have n: "msi_name ex_M1 = ''m1''" "policy_name ex_P1 = ''p1''"
    by (simp_all add: ex_M1_def ex_P1_def)
  have e: "py_list (experiment_generator [ex_S1, ex_S1] [ex_M1, ex_M1] [ex_P1] None) =
     Inr [\<lparr>case_name = ''m1 p1 0'', case_model_name = ''m1'',
           case_policy = ex_P1, case_scenario = ex_S1, experiment_id = 0\<rparr>,
          \<lparr>case_name = ''m1 p1 1'', case_model_name = ''m1'',
           case_policy = ex_P1, case_scenario = ex_S1, experiment_id = 1\<rparr>,
          \<lparr>case_name = ''m1 p1 2'', case_model_name = ''m1'',
           case_policy = ex_P1, case_scenario = ex_S1, experiment_id = 2\<rparr>,
          \<lparr>case_name = ''m1 p1 3'', case_model_name = ''m1'',
           case_policy = ex_P1, case_scenario = ex_S1, experiment_id = 3\<rparr>]"
    unfolding py_list_experiment_generator jobs_of_None sum.case
    by (simp add: u make_case_def Case_def str_nat_examples n)
  from experiment_generator_case_names [OF e]
  have "distinct [''m1 p1 0'', ''m1 p1 1'', ''m1 p1 2'', ''m1 p1 3'']"
    by simp
  with e show ?thesis ..
qed

subsection \<open>Invalid \<^verbatim>\<open>zip_over\<close>\<close>

lemma jobs_of_invalid:
  assumes "invalid_zip_over ss ms ps z"
  shows "jobs_of ss ms ps (Some z) =
    Inl (if \<not> set z \<subseteq> {''scenarios'', ''policies'', ''models''} \<or> card (set z) = 1
         then ValueError else AssertionError)"
proof (cases "\<not> set z \<subseteq> {''scenarios'', ''policies'', ''models''} \<or> card (set z) = 1")
  case True
  then show ?thesis
    using jobs_of_not_subset [of z ss ms ps] jobs_of_single [of z ss ms ps] by auto
next
  case False
  with assms have "zipped_lengths_differ ss ms ps z"
    unfolding invalid_zip_over_def by blast
  with False show ?thesis
    using jobs_of_lengths_differ [of z ss ms ps] by simp
qed

text \<open>
  Claim C2, as the code has it. For an invalid \<^verbatim>\<open>zip_over\<close> (one element, a name that is
  no axis, or zipped axes of unequal lengths) the call itself returns a generator and
  raises nothing; the first pull raises, before any case is produced: \<^verbatim>\<open>ValueError\<close> for
  a single element or an unknown name, \<^verbatim>\<open>AssertionError\<close> for unequal lengths.
\<close>

theorem experiment_generator_invalid_zip_over:
  assumes "invalid_zip_over scenarios model_structures policies zip_over"
  shows "experiment_generator scenarios model_structures policies (Some zip_over) =
           Inr (Created scenarios model_structures policies (Some zip_over))
    \<and> gen_next (Created scenarios model_structures policies (Some zip_over)) =
        (Raised (if \<not> set zip_over \<subseteq> {''scenarios'', ''policies'', ''models''}
                    \<or> card (set zip_over) = 1
                 then ValueError else AssertionError), Finished)
    \<and> py_list (experiment_generator scenarios model_structures policies (Some zip_over)) =
        Inl (if \<not> set zip_over \<subseteq> {''scenarios'', ''policies'', ''models''}
                \<or> card (set zip_over) = 1
             then ValueError else AssertionError)"
proof (intro conjI)
  show "experiment_generator scenarios model_structures policies (Some zip_over) =
          Inr (Created scenarios model_structures policies (Some zip_over))"
    by (simp only: experiment_generator_def)
  show "gen_next (Created scenarios model_structures policies (Some zip_over)) =
        (Raised (if \<not> set zip_over \<subseteq> {''scenarios'', ''policies'', ''models''}
                    \<or> card (set zip_over) = 1
                 then ValueError else AssertionError), Finished)"
    by (simp only: gen_next.simps jobs_of_invalid [OF assms] sum.case)
  show "py_list (experiment_generator scenarios model_structures policies (Some zip_over)) =
        Inl (if \<not> set zip_over \<subseteq> {''scenarios'', ''policies'', ''models''}
                \<or> card (set zip_over) = 1
             then ValueError else AssertionError)"
    by (simp only: py_list_experiment_generator jobs_of_invalid [OF assms] sum.case)
qed

theorem experiment_generator_invalid_zip_over_witness:
  "invalid_zip_over [ex_S1, ex_S2] [ex_M1] [ex_P1] [''scenarios'', ''policies'']
   \<and> invalid_zip_over [ex_S1] [ex_M1] [ex_P1] [''scenarios'']
   \<and> gen_next (Created [ex_S1, ex_S2] [ex_M1] [ex_P1] (Some [''scenarios'', ''policies''])) =
       (Raised AssertionError, Finished)
   \<and> py_list (experiment_generator [ex_S1] [ex_M1] [ex_P1] (Some [''scenarios''])) =
       Inl ValueError"
proof -
  have a: "invalid_zip_over [ex_S1, ex_S2] [ex_M1] [ex_P1] [''scenarios'', ''policies'']"
    by (simp add: invalid_zip_over_def zipped_lengths_differ_def axis_length_def)
  have b: "invalid_zip_over [ex_S1] [ex_M1] [ex_P1] [''scenarios'']"
    by (simp add: invalid_zip_over_def)
  from experiment_generator_invalid_zip_over [OF a, THEN conjunct2, THEN conjunct1]
  have c: "gen_next (Created [ex_S1, ex_S2] [ex_M1] [ex_P1]
             (Some [''scenarios'', ''policies''])) = (Raised AssertionError, Finished)"
    by simp
  from experiment_generator_invalid_zip_over [OF b, THEN conjunct2, THEN conjunct2]
  have d: "py_list (experiment_generator [ex_S1] [ex_M1] [ex_P1] (Some [''scenarios''])) =
             Inl ValueError"
    by simp
  from a b c d show ?thesis by (intro conjI)
qed

text \<open>
  Claim C2 as stated fails: with \<^verbatim>\<open>zip_over={'scenarios'}\<close> the call does not raise; the
  \<^verbatim>\<open>ValueError\<close> comes with the first pull.
\<close>

theorem experiment_generator_not_fail_fast:
  "card (set [''scenarios'']) = 1
   \<and> \<not> isl (experiment_generator [ex_S1] [ex_M1] [ex_P1] (Some [''scenarios'']))
   \<and> fst (gen_next (projr (experiment_generator [ex_S1] [ex_M1] [ex_P1]
        (Some [''scenarios''])))) = Raised ValueError"
proof -
  have "jobs_of [ex_S1] [ex_M1] [ex_P1] (Some [''scenarios'']) = Inl ValueError"
    by (rule jobs_of_single) simp
  then show ?thesis
    by (simp add: experiment_generator_def)
qed

section \<open>Properties of the parameters\<close>

text \<open>
  Claim C9. The upper bound derived from a distribution is its inverse CDF at 1. The
  lower bound is the inverse CDF at 0, unless the distribution is marked discrete: then
  it is the inverse CDF at \<^verbatim>\<open>5e-324\<close>, a positive number, in place of 0. The properties
  \<^verbatim>\<open>lower_bound\<close> and \<^verbatim>\<open>upper_bound\<close> of a parameter derive the same two numbers.
\<close>

theorem bounds_from_dist:
  "get_bounds_from_dist rv =
     (rv_ppf rv (if (case rv_dist rv of None \<Rightarrow> False | Some g \<Rightarrow> is_rv_discrete g)
                 then 5 / 10 ^ 324 else 0),
      rv_ppf rv 1)
   \<and> get_lower_bound_from_dist rv = fst (get_bounds_from_dist rv)
   \<and> get_upper_bound_from_dist rv = snd (get_bounds_from_dist rv)
   \<and> (0 :: real) < 5 / 10 ^ 324"
  by (simp add: get_bounds_from_dist_def get_lower_bound_from_dist_def
        get_upper_bound_from_dist_def ppf_zero_def split: option.split)

lemma Parameter_init_no_resolution:
  "Parameter_init cls name lower upper None dflt vn pff rv =
     (if num_val upper \<le> num_val lower then Inl ValueError
      else Inr \<lparr>p_class = cls, p_name = name, p_resolution = [], p_default = dflt,
                p_variable_name = vn, p_pff = pff, p_rv_gen = rv\<rparr>)"
  by (simp add: Parameter_init_def)

lemma CategoricalParameter_init_eq:
  "CategoricalParameter_init cls name cat_args dflt vn pff mv =
     (if length cat_args < 2 then Inl ValueError
      else Inr \<lparr>p_class = cls, p_name = name,
                p_resolution = map (\<lambda>i. PyInt (int i)) [0..<length cat_args],
                p_default = dflt, p_variable_name = vn, p_pff = pff,
                p_rv_gen = randint (PyInt 0) (PyInt (int (length cat_args))),
                cp_categories = map create_category cat_args, cp_multivalue = mv\<rparr>)"
proof -
  consider "length cat_args = 0" | "length cat_args = 1" | "2 \<le> length cat_args"
    by linarith
  then show ?thesis
  proof cases
    case 1
    then show ?thesis
      by (simp add: CategoricalParameter_init_def IntegerParameter_init_def
            IntegerParameter_finish_def Parameter_init_no_resolution)
  next
    case 2
    then show ?thesis
      by (simp add: CategoricalParameter_init_def)
  next
    case 3
    then show ?thesis
      by (simp add: CategoricalParameter_init_def IntegerParameter_init_def
            IntegerParameter_finish_def Parameter_init_no_resolution Let_def
            categories_setter_def categories_def NamedObjectMap_def NamedObjectMap_extend_def)
  qed
qed




lemma upt_3: "[0..<3] = [0, 1, 2]"
  by (simp add: upt_rec)

lemma CategoricalParameter_ex_abc:
  "CategoricalParameter ''x'' ex_abc None None False False = Inr ex_categorical"
  by (simp add: CategoricalParameter_def CategoricalParameter_init_eq ex_abc_def
        ex_categorical_def upt_3)





lemma CategoricalParameter_ex_uvw:
  "CategoricalParameter ''x'' ex_uvw None None False False = Inr ex_categorical_uvw"
  by (simp add: CategoricalParameter_def CategoricalParameter_init_eq ex_uvw_def
        ex_categorical_uvw_def upt_3)

lemma csv_row_categorical:
  assumes "CategoricalParameter name cat_args dflt variable_name pff multivalue = Inr p"
  shows "csv_row (Categorical p) = (name, map (\<lambda>i. PyInt (int i)) [0..<length cat_args])"
  using assms
  by (auto simp: CategoricalParameter_def CategoricalParameter_init_eq csv_row_def
        split: if_splits)

text \<open>
  Claim C3 fails on the code. The row \<^verbatim>\<open>parameters_to_csv\<close> writes for a categorical
  parameter holds \<^verbatim>\<open>param.resolution\<close>, the indices 0, 1, 2, and not the categories: two
  parameters with the categories a, b, c and u, v, w give the same table, so no reader
  of the table can reproduce the categories.
\<close>

theorem parameters_to_csv_loses_categories:
  "CategoricalParameter ''x'' ex_abc None None False False = Inr ex_categorical
   \<and> CategoricalParameter ''x'' ex_uvw None None False False = Inr ex_categorical_uvw
   \<and> parameters_to_csv [Categorical ex_categorical] = [(''x'', [PyInt 0, PyInt 1, PyInt 2])]
   \<and> parameters_to_csv [Categorical ex_categorical_uvw] =
       [(''x'', [PyInt 0, PyInt 1, PyInt 2])]
   \<and> categories ex_categorical =
       [Category ''a'' (StrL ''a''), Category ''b'' (StrL ''b''), Category ''c'' (StrL ''c'')]
   \<and> categories ex_categorical_uvw =
       [Category ''u'' (StrL ''u''), Category ''v'' (StrL ''v''), Category ''w'' (StrL ''w'')]
   \<and> categories ex_categorical \<noteq> categories ex_categorical_uvw"
  by (simp add: CategoricalParameter_ex_abc CategoricalParameter_ex_uvw parameters_to_csv_def
        csv_row_def categories_def)
     (simp add: ex_categorical_def ex_categorical_uvw_def Category_def)

lemma num_eq_refl: "num_eq x x"
  by (simp add: num_eq_def)

lemma pyval_eq_refl: "pyval_eq v v"
  by (cases v) (simp_all add: num_eq_refl)

lemma default_eq_refl: "default_eq d d"
  by (cases d) (simp_all add: pyval_eq_refl)

lemma list_all2_num_eq_refl: "list_all2 num_eq xs xs"
  by (simp add: list_all2_same num_eq_refl)

lemma attributes_eq_refl: "attributes_eq p p"
  by (simp add: attributes_eq_def list_all2_num_eq_refl default_eq_refl)

lemma RealParameter_bounds_rv:
  assumes "RealParameter name (Some lower) (Some upper) res dflt vn pff None = Inr p"
  shows "p_rv_gen p = uniform lower (num_sub upper lower)"
    and "p_class p = RealParameter_class"
  using assms
  by (auto simp: RealParameter_def Parameter_init_def Let_def split: if_splits)

lemma RealParameter_dist_rv:
  assumes "RealParameter name lo uo res dflt vn pff (Some d) = Inr p"
  shows "p_rv_gen p = d"
  using assms
  by (auto simp: RealParameter_def Parameter_init_def Let_def split: if_splits prod.splits)

text \<open>
  Claim C7. For \<open>lower < upper\<close> a \<^verbatim>\<open>RealParameter\<close> can be built from the pair, and two
  built from the same arguments with no distribution are equal. One built from a
  distribution whose family is not \<^verbatim>\<open>uniform\<close> equals neither, in either order. Two
  parameters that \<^verbatim>\<open>RealParameter.__eq__\<close> finds equal are of the same class, agree on
  every attribute set by \<^verbatim>\<open>Parameter.__init__\<close>, and their distributions agree on
  family name, \<^verbatim>\<open>args\<close>, \<^verbatim>\<open>kwds\<close> and the support \<^verbatim>\<open>a\<close>, \<^verbatim>\<open>b\<close>.
\<close>

theorem RealParameter_equality:
  "(num_val lower < num_val upper \<longrightarrow>
      (\<exists>p. RealParameter name (Some lower) (Some upper) None dflt vn pff None = Inr p))
   \<and> (RealParameter name (Some lower) (Some upper) res dflt vn pff None = Inr p1
      \<and> RealParameter name (Some lower) (Some upper) res dflt vn pff None = Inr p2
      \<longrightarrow> RealParameter_eq p1 p2 = Inr True
        \<and> (RealParameter name3 lower3 upper3 res3 dflt3 vn3 pff3 (Some d) = Inr p3
           \<and> rv_dist d = Some g \<and> family_name g \<noteq> ''uniform''
           \<longrightarrow> RealParameter_eq p1 p3 = Inr False \<and> RealParameter_eq p3 p1 = Inr False
             \<and> RealParameter_eq p2 p3 = Inr False \<and> RealParameter_eq p3 p2 = Inr False))
   \<and> (RealParameter_eq p q = Inr True \<longrightarrow>
        p_class p = p_class q
        \<and> p_name p = p_name q
        \<and> list_all2 num_eq (p_resolution p) (p_resolution q)
        \<and> default_eq (p_default p) (p_default q)
        \<and> p_variable_name p = p_variable_name q
        \<and> p_pff p = p_pff q
        \<and> map_option family_name (rv_dist (p_rv_gen p)) =
            map_option family_name (rv_dist (p_rv_gen q))
        \<and> list_all2 num_eq (rv_args (p_rv_gen p)) (rv_args (p_rv_gen q))
        \<and> dict_eq (rv_kwds (p_rv_gen p)) (rv_kwds (p_rv_gen q))
        \<and> num_eq (rv_a (p_rv_gen p)) (rv_a (p_rv_gen q))
        \<and> num_eq (rv_b (p_rv_gen p)) (rv_b (p_rv_gen q)))"
proof (intro conjI impI)
  assume "num_val lower < num_val upper"
  then show "\<exists>p. RealParameter name (Some lower) (Some upper) None dflt vn pff None = Inr p"
    by (simp add: RealParameter_def Parameter_init_no_resolution)
next
  assume a: "RealParameter name (Some lower) (Some upper) res dflt vn pff None = Inr p1
      \<and> RealParameter name (Some lower) (Some upper) res dflt vn pff None = Inr p2"
  have e: "p1 = p2"
    using trans [OF a [THEN conjunct1, symmetric] a [THEN conjunct2]] by simp
  have rv: "p_rv_gen p1 = uniform lower (num_sub upper lower)"
    by (rule RealParameter_bounds_rv(1) [OF a [THEN conjunct1]])
  show "RealParameter_eq p1 p2 = Inr True"
    unfolding e [symmetric]
    by (simp add: RealParameter_eq_def rv uniform_def attributes_eq_refl num_eq_refl
          dict_eq_def)
  assume b: "RealParameter name3 lower3 upper3 res3 dflt3 vn3 pff3 (Some d) = Inr p3
           \<and> rv_dist d = Some g \<and> family_name g \<noteq> ''uniform''"
  then have rv3: "p_rv_gen p3 = d"
    by (intro RealParameter_dist_rv [of name3 lower3 upper3 res3 dflt3 vn3 pff3]) blast
  from b have ne: "''uniform'' \<noteq> family_name g" "family_name g \<noteq> ''uniform''"
    by auto
  from b show "RealParameter_eq p1 p3 = Inr False"
    by (simp add: RealParameter_eq_def rv rv3 uniform_def ne del: list.simps)
  from b show "RealParameter_eq p3 p1 = Inr False"
    by (simp add: RealParameter_eq_def rv rv3 uniform_def ne del: list.simps)
  from b show "RealParameter_eq p2 p3 = Inr False"
    unfolding e [symmetric]
    by (simp add: RealParameter_eq_def rv rv3 uniform_def ne del: list.simps)
  from b show "RealParameter_eq p3 p2 = Inr False"
    unfolding e [symmetric]
    by (simp add: RealParameter_eq_def rv rv3 uniform_def ne del: list.simps)
next
  assume "RealParameter_eq p q = Inr True"
  then have "attributes_eq p q
      \<and> p_class p = p_class q
      \<and> map_option family_name (rv_dist (p_rv_gen p)) =
          map_option family_name (rv_dist (p_rv_gen q))
      \<and> list_all2 num_eq (rv_args (p_rv_gen p)) (rv_args (p_rv_gen q))
      \<and> dict_eq (rv_kwds (p_rv_gen p)) (rv_kwds (p_rv_gen q))
      \<and> num_eq (rv_a (p_rv_gen p)) (rv_a (p_rv_gen q))
      \<and> num_eq (rv_b (p_rv_gen p)) (rv_b (p_rv_gen q))"
    unfolding RealParameter_eq_def by (auto split: option.splits)
  then show "p_class p = p_class q" "p_name p = p_name q"
    "list_all2 num_eq (p_resolution p) (p_resolution q)"
    "default_eq (p_default p) (p_default q)"
    "p_variable_name p = p_variable_name q" "p_pff p = p_pff q"
    "map_option family_name (rv_dist (p_rv_gen p)) =
       map_option family_name (rv_dist (p_rv_gen q))"
    "list_all2 num_eq (rv_args (p_rv_gen p)) (rv_args (p_rv_gen q))"
    "dict_eq (rv_kwds (p_rv_gen p)) (rv_kwds (p_rv_gen q))"
    "num_eq (rv_a (p_rv_gen p)) (rv_a (p_rv_gen q))"
    "num_eq (rv_b (p_rv_gen p)) (rv_b (p_rv_gen q))"
    by (simp_all add: attributes_eq_def)
qed

lemma RealParameter_ex_real:
  "RealParameter ''x'' (Some (PyInt 0)) (Some (PyInt 1)) None None None False None = Inr ex_real"
  by (simp add: RealParameter_def Parameter_init_no_resolution ex_real_def)

lemma get_bounds_ex_triang: "get_bounds_from_dist ex_triang = (0, 1)"
  by (simp add: get_bounds_from_dist_def ppf_zero_def ex_triang_def)

lemma RealParameter_ex_real_triang:
  "RealParameter ''x'' None None None None None False (Some ex_triang) = Inr ex_real_triang"
  by (simp add: RealParameter_def get_bounds_ex_triang Parameter_init_no_resolution
        ex_real_triang_def)

theorem RealParameter_equality_witness:
  "num_val (PyInt 0) < num_val (PyInt 1)
   \<and> RealParameter ''x'' (Some (PyInt 0)) (Some (PyInt 1)) None None None False None =
       Inr ex_real
   \<and> RealParameter ''x'' None None None None None False (Some ex_triang) = Inr ex_real_triang
   \<and> get_bounds_from_dist ex_triang = (num_val (PyInt 0), num_val (PyInt 1))
   \<and> rv_dist ex_triang = Some \<lparr>family_name = ''triang'', is_rv_discrete = False\<rparr>
   \<and> RealParameter_eq ex_real ex_real = Inr True
   \<and> RealParameter_eq ex_real ex_real_triang = Inr False
   \<and> RealParameter_eq ex_real_triang ex_real = Inr False
   \<and> p_name ex_real = p_name ex_real"
proof -
  note t = RealParameter_equality [where lower = "PyInt 0" and upper = "PyInt 1"
      and name = "''x''" and res = None and dflt = None and vn = None and pff = False
      and ?p1.0 = ex_real and ?p2.0 = ex_real
      and ?name3.0 = "''x''" and ?lower3.0 = None and ?upper3.0 = None and ?res3.0 = None
      and ?dflt3.0 = None and ?vn3.0 = None and ?pff3.0 = False and d = ex_triang
      and ?p3.0 = ex_real_triang
      and g = "\<lparr>family_name = ''triang'', is_rv_discrete = False\<rparr>"
      and p = ex_real and q = ex_real]
  have g: "rv_dist ex_triang = Some \<lparr>family_name = ''triang'', is_rv_discrete = False\<rparr>"
    by (simp add: ex_triang_def)
  have n: "family_name \<lparr>family_name = ''triang'', is_rv_discrete = False\<rparr> \<noteq> ''uniform''"
    by simp
  from t RealParameter_ex_real have a: "RealParameter_eq ex_real ex_real = Inr True"
    by blast
  from t RealParameter_ex_real RealParameter_ex_real_triang g n
  have b: "RealParameter_eq ex_real ex_real_triang = Inr False
         \<and> RealParameter_eq ex_real_triang ex_real = Inr False"
    by blast
  from t a have c: "p_name ex_real = p_name ex_real"
    by blast
  have l: "num_val (PyInt 0) < num_val (PyInt 1)"
    by simp
  from l RealParameter_ex_real RealParameter_ex_real_triang g a b c get_bounds_ex_triang
  show ?thesis by simp
qed
















text \<open>
  The test of the bounds is \<^verbatim>\<open>not (lb_int or up_int)\<close>: one integral bound is enough
  for it, so an integer parameter with the bounds 0 and 1.5 is constructed.
\<close>

lemma IntegerParameter_one_integral_bound:
  "IntegerParameter ''n'' (Some (PyInt 0)) (Some (PyFloat (3 / 2))) None None None False None =
     Inr \<lparr>p_class = IntegerParameter_class, p_name = ''n'', p_resolution = [],
          p_default = None, p_variable_name = None, p_pff = False,
          p_rv_gen = randint (PyInt 0) (PyFloat (5 / 2))\<rparr>"
  by (simp add: IntegerParameter_def IntegerParameter_init_def IntegerParameter_finish_def
        Parameter_init_def)

end
